theory Spec2Isabelle
  imports Complex_Main "HOL-Library.Sublist"
begin

section \<open>Tensors\<close>

text \<open>
  The notebook computes on \<^verbatim>\<open>torch\<close> tensors. A tensor is modelled as its shape
  together with its elements in row-major order; the elements are real numbers (the
  rounding of 32-bit floats is not modelled). A tensor is well formed when it holds as
  many elements as its shape says.
\<close>

datatype tensor = Tensor (shape: "nat list") (elems: "real list")

definition wf_tensor :: "tensor \<Rightarrow> bool" where
  "wf_tensor t = (length (elems t) = prod_list (shape t))"

text \<open>\<open>at2 t b j\<close> is the element \<^verbatim>\<open>t[b, j]\<close> of a two-dimensional tensor.\<close>

definition at2 :: "tensor \<Rightarrow> nat \<Rightarrow> nat \<Rightarrow> real" where
  "at2 t b j = elems t ! (b * (shape t ! 1) + j)"

text \<open>
  The exceptions the code can raise. \<^verbatim>\<open>NameError\<close> carries the name that is not
  bound. \<^verbatim>\<open>DimensionMismatch\<close> is torch's \<^verbatim>\<open>RuntimeError\<close> for shapes that do not
  fit (a linear layer given the wrong number of features, operands that do not
  broadcast, tensors of different sizes given to \<^verbatim>\<open>stack\<close>); \<^verbatim>\<open>DimOutOfRange\<close> is the
  \<^verbatim>\<open>IndexError\<close> for a dimension the tensor does not have; \<^verbatim>\<open>TupleIndexError\<close> is
  Python's \<^verbatim>\<open>IndexError\<close> on a tuple; \<^verbatim>\<open>EmptyTensorList\<close> is the \<^verbatim>\<open>RuntimeError\<close>
  of \<^verbatim>\<open>torch.stack\<close> on an empty list; \<^verbatim>\<open>TypeError\<close> is raised when a layer is
  applied to something that is not a tensor.
\<close>

datatype error =
    NameError string
  | TypeError
  | DimensionMismatch
  | DimOutOfRange
  | TupleIndexError
  | EmptyTensorList

definition bind_err :: "error + 'a \<Rightarrow> ('a \<Rightarrow> error + 'b) \<Rightarrow> error + 'b" where
  "bind_err m f = (case m of Inl e \<Rightarrow> Inl e | Inr x \<Rightarrow> f x)"

text \<open>\<open>blocks k n xs\<close> cuts the first \<open>k * n\<close> elements of \<open>xs\<close> into \<open>k\<close> consecutive
  blocks of \<open>n\<close> elements.\<close>

definition blocks :: "nat \<Rightarrow> nat \<Rightarrow> 'a list \<Rightarrow> 'a list list" where
  "blocks k n xs = map (\<lambda>i. take n (drop (i * n) xs)) [0..<k]"

subsection \<open>Elementwise operations\<close>

definition sigmoid :: "real \<Rightarrow> real" where
  "sigmoid x = 1 / (1 + exp (- x))"

definition tensor_sigmoid :: "tensor \<Rightarrow> tensor" where
  "tensor_sigmoid t = Tensor (shape t) (map sigmoid (elems t))"

definition tensor_tanh :: "tensor \<Rightarrow> tensor" where
  "tensor_tanh t = Tensor (shape t) (map tanh (elems t))"

text \<open>
  \<^verbatim>\<open>a + b\<close> and \<^verbatim>\<open>a * b\<close> broadcast: the shapes are aligned at their last dimension,
  two sizes fit when they are equal or one of them is 1, and a missing or 1-sized
  dimension is repeated. \<open>broadcast_rev\<close> works on the reversed shapes.
\<close>

fun broadcast_rev :: "nat list \<Rightarrow> nat list \<Rightarrow> nat list option" where
  "broadcast_rev [] ys = Some ys"
| "broadcast_rev xs [] = Some xs"
| "broadcast_rev (x # xs) (y # ys) =
     (if x = y \<or> y = 1 then map_option ((#) x) (broadcast_rev xs ys)
      else if x = 1 then map_option ((#) y) (broadcast_rev xs ys)
      else None)"

definition broadcast_shapes :: "nat list \<Rightarrow> nat list \<Rightarrow> nat list option" where
  "broadcast_shapes s1 s2 = map_option rev (broadcast_rev (rev s1) (rev s2))"

text \<open>\<open>expand tgt src xs\<close> repeats the elements \<open>xs\<close> of a tensor of shape \<open>src\<close> (as
  long as \<open>tgt\<close>) to the shape \<open>tgt\<close>.\<close>

fun expand :: "nat list \<Rightarrow> nat list \<Rightarrow> 'a list \<Rightarrow> 'a list" where
  "expand (d # ds) (s # ss) xs =
     (let bl = concat (map (expand ds ss) (blocks s (prod_list ss) xs))
      in if s = d then bl else concat (replicate d bl))"
| "expand _ _ xs = xs"

definition expand_to :: "nat list \<Rightarrow> tensor \<Rightarrow> real list" where
  "expand_to tgt t =
     expand tgt (replicate (length tgt - length (shape t)) 1 @ shape t) (elems t)"

definition tensor_binop :: "(real \<Rightarrow> real \<Rightarrow> real) \<Rightarrow> tensor \<Rightarrow> tensor \<Rightarrow> error + tensor" where
  "tensor_binop f a b =
     (case broadcast_shapes (shape a) (shape b) of
        None \<Rightarrow> Inl DimensionMismatch
      | Some s \<Rightarrow> Inr (Tensor s (map2 f (expand_to s a) (expand_to s b))))"

definition tensor_add :: "tensor \<Rightarrow> tensor \<Rightarrow> error + tensor" where
  "tensor_add = tensor_binop (+)"

definition tensor_mul :: "tensor \<Rightarrow> tensor \<Rightarrow> error + tensor" where
  "tensor_mul = tensor_binop (*)"

subsection \<open>Slicing: chunk, unbind, stack\<close>

text \<open>\<open>narrow ax start len t\<close> keeps the indices \<open>start ..< start + len\<close> of dimension
  \<open>ax\<close> (\<^verbatim>\<open>torch.narrow\<close>); it is used where \<open>ax\<close> and the range are valid.\<close>

definition narrow :: "nat \<Rightarrow> nat \<Rightarrow> nat \<Rightarrow> tensor \<Rightarrow> tensor" where
  "narrow ax start len t =
     (let pre = take ax (shape t); n = shape t ! ax; post = drop (Suc ax) (shape t);
          inner = prod_list post
      in Tensor (pre @ [len] @ post)
           (concat (map (\<lambda>blk. take (len * inner) (drop (start * inner) blk))
                        (blocks (prod_list pre) (n * inner) (elems t)))))"

text \<open>
  \<^verbatim>\<open>t.chunk(chunks, dim)\<close>: pieces of \<open>\<lceil>n / chunks\<rceil>\<close> indices along the dimension, the last one
  shorter when \<open>n\<close> is not a multiple; fewer than \<open>chunks\<close> pieces when \<open>n\<close> is small; for
  \<open>n = 0\<close>, \<open>chunks\<close> empty pieces.
\<close>

definition chunk :: "tensor \<Rightarrow> nat \<Rightarrow> nat \<Rightarrow> error + tensor list" where
  "chunk t chunks ax =
     (if ax \<ge> length (shape t) then Inl DimOutOfRange
      else let n = shape t ! ax; split_size = (n + chunks - 1) div chunks
           in if split_size = 0 then Inr (map (\<lambda>i. narrow ax 0 0 t) [0..<chunks])
              else Inr (map (\<lambda>i. narrow ax (i * split_size) (min split_size (n - i * split_size)) t)
                            [0..<(n + split_size - 1) div split_size]))"

text \<open>\<open>select ax i t\<close> is \<^verbatim>\<open>t.select(ax, i)\<close>: index \<open>i\<close> of dimension \<open>ax\<close>, that
  dimension removed. \<^verbatim>\<open>t.unbind(ax)\<close> is the tuple of all of them.\<close>

definition select :: "nat \<Rightarrow> nat \<Rightarrow> tensor \<Rightarrow> tensor" where
  "select ax i t =
     Tensor (take ax (shape t) @ drop (Suc ax) (shape t)) (elems (narrow ax i 1 t))"

definition unbind :: "tensor \<Rightarrow> nat \<Rightarrow> error + tensor list" where
  "unbind t ax =
     (if ax \<ge> length (shape t) then Inl DimOutOfRange
      else Inr (map (\<lambda>i. select ax i t) [0..<shape t ! ax]))"

text \<open>
  \<^verbatim>\<open>torch.stack(ts, ax)\<close> joins tensors of one shape along a new dimension \<open>ax\<close>. An
  empty list is refused first, then a dimension beyond the rank, then tensors of
  different shapes.
\<close>

definition stack :: "tensor list \<Rightarrow> nat \<Rightarrow> error + tensor" where
  "stack ts ax =
     (case ts of
        [] \<Rightarrow> Inl EmptyTensorList
      | t # _ \<Rightarrow>
          if ax > length (shape t) then Inl DimOutOfRange
          else if \<not> list_all (\<lambda>u. shape u = shape t) ts then Inl DimensionMismatch
          else let pre = take ax (shape t); post = drop ax (shape t); inner = prod_list post
               in Inr (Tensor (pre @ [length ts] @ post)
                    (concat (map (\<lambda>outer. concat (map (\<lambda>u. take inner (drop (outer * inner) (elems u))) ts))
                                 [0..<prod_list pre]))))"

text \<open>Python's \<^verbatim>\<open>gates[i]\<close> on a tuple.\<close>

definition tuple_get :: "'a list \<Rightarrow> nat \<Rightarrow> error + 'a" where
  "tuple_get xs i = (if i < length xs then Inr (xs ! i) else Inl TupleIndexError)"

subsection \<open>The linear layer\<close>

text \<open>
  \<^verbatim>\<open>nn.Linear(in_features, out_features)\<close> holds a weight matrix with one row per output
  feature and a bias vector. Applied to a tensor whose last dimension is \<open>in_features\<close>
  it maps every row \<open>r\<close> to \<open>W r + b\<close>; any other tensor is a shape error.
\<close>

record linear =
  in_features :: nat
  out_features :: nat
  weight :: "real list list"
  bias :: "real list"

definition wf_linear :: "nat \<Rightarrow> nat \<Rightarrow> linear \<Rightarrow> bool" where
  "wf_linear n m l =
     (in_features l = n \<and> out_features l = m \<and> length (weight l) = m \<and>
      list_all (\<lambda>row. length row = n) (weight l) \<and> length (bias l) = m)"

definition dot :: "real list \<Rightarrow> real list \<Rightarrow> real" where
  "dot u v = sum_list (map2 (*) u v)"

definition linear_forward :: "linear \<Rightarrow> tensor \<Rightarrow> error + tensor" where
  "linear_forward l x =
     (case rev (shape x) of
        [] \<Rightarrow> Inl DimensionMismatch
      | d # lead \<Rightarrow>
          if d \<noteq> in_features l then Inl DimensionMismatch
          else Inr (Tensor (rev lead @ [out_features l])
                 (concat (map (\<lambda>row. map2 (\<lambda>w b. dot w row + b) (weight l) (bias l))
                              (blocks (prod_list lead) d (elems x))))))"

section \<open>The LSTM cell\<close>

text \<open>
  \<^verbatim>\<open>LSTMCell(input_dim, hidden_dim)\<close> holds two linear layers, both with
  \<open>4 * hidden_dim\<close> output features.
\<close>

record LSTMCell =
  input_layer :: linear
  hidden_layer :: linear

definition wf_cell :: "nat \<Rightarrow> nat \<Rightarrow> LSTMCell \<Rightarrow> bool" where
  "wf_cell input_dim hidden_dim c =
     (wf_linear input_dim (4 * hidden_dim) (input_layer c) \<and>
      wf_linear hidden_dim (4 * hidden_dim) (hidden_layer c))"

text \<open>
  \<^verbatim>\<open>forward\<close> reads the name \<^verbatim>\<open>previous_hidden\<close>, which the function never assigns
  (line 175 binds \<^verbatim>\<open>previous_hidden_state\<close>). Python therefore looks the name up among
  the module's global names when line 177 runs (no built-in has this name), and raises
  \<^verbatim>\<open>NameError\<close> when it is not there. The global names are a parameter of the model.
  The left operand of \<^verbatim>\<open>+\<close> is evaluated first, so an exception of the input layer
  comes before the one for the name.
\<close>

datatype pyval = TensorVal tensor | ObjectVal

type_synonym globals = "string \<rightharpoonup> pyval"

definition load_name :: "globals \<Rightarrow> string \<Rightarrow> error + pyval" where
  "load_name g name = (case g name of None \<Rightarrow> Inl (NameError name) | Some v \<Rightarrow> Inr v)"

text \<open>The names the notebook binds at top level: its two imports, its two classes
  and the layer of its last cell.\<close>

definition notebook_globals :: globals where
  "notebook_globals =
     map_of [(''torch'', ObjectVal), (''nn'', ObjectVal), (''LSTMCell'', ObjectVal),
             (''LSTMLayer'', ObjectVal), (''lstm'', ObjectVal)]"

definition call_layer :: "linear \<Rightarrow> pyval \<Rightarrow> error + tensor" where
  "call_layer l v = (case v of TensorVal t \<Rightarrow> linear_forward l t | ObjectVal \<Rightarrow> Inl TypeError)"

type_synonym state = "tensor \<times> tensor"

text \<open>Lines 179 to 190 of \<^verbatim>\<open>forward\<close>, as a function of the two local variables
  they read.\<close>

definition forward_gates :: "tensor \<Rightarrow> tensor \<Rightarrow> error + tensor \<times> state" where
  "forward_gates weights previous_cell_state =
     bind_err (chunk weights 4 1) (\<lambda>gates.
     bind_err (tuple_get gates 0) (\<lambda>g0. let input_gate = tensor_sigmoid g0 in
     bind_err (tuple_get gates 1) (\<lambda>g1. let forget_gate = tensor_sigmoid g1 in
     bind_err (tuple_get gates 2) (\<lambda>g2. let output_gate = tensor_sigmoid g2 in
     bind_err (tuple_get gates 3) (\<lambda>g3. let cell_gate = tensor_tanh g3 in
     bind_err (tensor_mul forget_gate previous_cell_state) (\<lambda>kept.
     bind_err (tensor_mul input_gate cell_gate) (\<lambda>written.
     bind_err (tensor_add kept written) (\<lambda>new_cell.
     bind_err (tensor_mul output_gate (tensor_tanh new_cell)) (\<lambda>new_hidden.
     Inr (new_hidden, (new_hidden, new_cell)))))))))))"

definition LSTMCell_forward :: "globals \<Rightarrow> LSTMCell \<Rightarrow> tensor \<Rightarrow> state \<Rightarrow> error + tensor \<times> state" where
  "LSTMCell_forward g self current_input previous_state =
     (case previous_state of (previous_hidden_state, previous_cell_state) \<Rightarrow>
        bind_err (linear_forward (input_layer self) current_input) (\<lambda>from_input.
        bind_err (load_name g ''previous_hidden'') (\<lambda>previous_hidden.
        bind_err (call_layer (hidden_layer self) previous_hidden) (\<lambda>from_hidden.
        bind_err (tensor_add from_input from_hidden) (\<lambda>weights.
        forward_gates weights previous_cell_state)))))"

section \<open>The LSTM layer\<close>

text \<open>
  \<^verbatim>\<open>LSTMLayer(cell, *cell_args)\<close> builds its cell from whatever class it is given, so
  the model takes the cell's call as a parameter \<open>cell\<close>. The loop of \<^verbatim>\<open>forward\<close>,

  \<^verbatim>\<open>for i in range(len(inputs)): output, state = self.cell(inputs[i], state); outputs += [output]\<close>

  is modelled by the number of passes made: \<open>LSTMLayer_loop cell inputs state n\<close> is the
  pair of \<^verbatim>\<open>outputs\<close> and \<^verbatim>\<open>state\<close> after the passes \<open>i = 0, \<dots>, n - 1\<close>, or the
  exception raised on the way. \<^verbatim>\<open>forward\<close> makes \<^verbatim>\<open>len(inputs)\<close> passes.
\<close>

primrec LSTMLayer_loop ::
  "(tensor \<Rightarrow> 's \<Rightarrow> error + tensor \<times> 's) \<Rightarrow> tensor list \<Rightarrow> 's \<Rightarrow> nat \<Rightarrow> error + tensor list \<times> 's" where
  "LSTMLayer_loop cell inputs state0 0 = Inr ([], state0)"
| "LSTMLayer_loop cell inputs state0 (Suc i) =
     bind_err (LSTMLayer_loop cell inputs state0 i) (\<lambda>(outputs, state).
     bind_err (cell (inputs ! i) state) (\<lambda>(output, state').
     Inr (outputs @ [output], state')))"

definition LSTMLayer_forward ::
  "(tensor \<Rightarrow> 's \<Rightarrow> error + tensor \<times> 's) \<Rightarrow> tensor \<Rightarrow> 's \<Rightarrow> error + tensor \<times> 's" where
  "LSTMLayer_forward cell input state0 =
     bind_err (unbind input 1) (\<lambda>inputs.
     bind_err (LSTMLayer_loop cell inputs state0 (length inputs)) (\<lambda>(outputs, state).
     bind_err (stack outputs 1) (\<lambda>stacked.
     Inr (stacked, state))))"

text \<open>\<open>LSTMLayer_after cell input state0 k\<close> is what \<^verbatim>\<open>forward\<close> holds in \<^verbatim>\<open>outputs\<close>
  and \<^verbatim>\<open>state\<close> when it has made \<open>k\<close> passes of its loop over \<^verbatim>\<open>input\<close> (for \<open>k\<close> up to
  the number of steps of \<^verbatim>\<open>input\<close>).\<close>

definition LSTMLayer_after ::
  "(tensor \<Rightarrow> 's \<Rightarrow> error + tensor \<times> 's) \<Rightarrow> tensor \<Rightarrow> 's \<Rightarrow> nat \<Rightarrow> error + tensor list \<times> 's" where
  "LSTMLayer_after cell input state0 k =
     bind_err (unbind input 1) (\<lambda>inputs. LSTMLayer_loop cell inputs state0 k)"

text \<open>The layer of the notebook's last cell, \<^verbatim>\<open>lstm = LSTMLayer(LSTMCell, 100, 100)\<close>,
  for any dimensions: its cell is an \<open>LSTMCell\<close>.\<close>

definition lstm_forward :: "globals \<Rightarrow> LSTMCell \<Rightarrow> tensor \<Rightarrow> state \<Rightarrow> error + tensor \<times> state" where
  "lstm_forward g self = LSTMLayer_forward (LSTMCell_forward g self)"

section \<open>Tensors as objects\<close>

text \<open>
  In Python a tensor is an object that a call could change in place. To state what
  \<^verbatim>\<open>forward\<close> leaves alone, the same lines are modelled a second time on a heap of
  tensor objects: a reference is an index into the heap, the parameters of the layers
  are objects of the heap as well, and every call that \<^verbatim>\<open>forward\<close> makes
  (\<^verbatim>\<open>nn.Linear.__call__\<close>, \<^verbatim>\<open>+\<close>, \<^verbatim>\<open>*\<close>, \<^verbatim>\<open>chunk\<close>, \<^verbatim>\<open>torch.sigmoid\<close>, \<^verbatim>\<open>torch.tanh\<close>)
  returns new objects, as torch's out-of-place operations do. The pieces that
  \<^verbatim>\<open>chunk\<close> returns share their storage with its argument in torch; as nothing is ever
  written, they are modelled as objects of their own.
\<close>

type_synonym ref = nat
type_synonym heap = "tensor list"

datatype pyref = TensorRef ref | ObjectRef

type_synonym heap_globals = "string \<rightharpoonup> pyref"

record linear_obj =
  weight_ref :: ref
  bias_ref :: ref

record LSTMCell_obj =
  input_layer_obj :: linear_obj
  hidden_layer_obj :: linear_obj

text \<open>The layer and the cell that the objects of a heap stand for: the weight is a
  tensor of shape \<open>[out_features, in_features]\<close>.\<close>

definition linear_of :: "heap \<Rightarrow> linear_obj \<Rightarrow> linear" where
  "linear_of h l =
     (let W = h ! weight_ref l; b = h ! bias_ref l
      in \<lparr>in_features = shape W ! 1, out_features = shape W ! 0,
          weight = blocks (shape W ! 0) (shape W ! 1) (elems W), bias = elems b\<rparr>)"

definition cell_of :: "heap \<Rightarrow> LSTMCell_obj \<Rightarrow> LSTMCell" where
  "cell_of h c =
     \<lparr>input_layer = linear_of h (input_layer_obj c),
      hidden_layer = linear_of h (hidden_layer_obj c)\<rparr>"

definition pyval_of :: "heap \<Rightarrow> pyref \<Rightarrow> pyval" where
  "pyval_of h v = (case v of TensorRef r \<Rightarrow> TensorVal (h ! r) | ObjectRef \<Rightarrow> ObjectVal)"

definition globals_of :: "heap \<Rightarrow> heap_globals \<Rightarrow> globals" where
  "globals_of h g = (\<lambda>name. map_option (pyval_of h) (g name))"

text \<open>A computation on the heap returns a value or an exception, and the heap it
  leaves.\<close>

type_synonym 'a heap_op = "heap \<Rightarrow> (error + 'a) \<times> heap"

definition bind_heap :: "'a heap_op \<Rightarrow> ('a \<Rightarrow> 'b heap_op) \<Rightarrow> 'b heap_op" where
  "bind_heap m f h = (case m h of (Inl e, h') \<Rightarrow> (Inl e, h') | (Inr x, h') \<Rightarrow> f x h')"

definition pure_op :: "error + 'a \<Rightarrow> 'a heap_op" where
  "pure_op r h = (r, h)"

definition new_tensor :: "error + tensor \<Rightarrow> ref heap_op" where
  "new_tensor r h = (case r of Inl e \<Rightarrow> (Inl e, h) | Inr t \<Rightarrow> (Inr (length h), h @ [t]))"

definition new_tensors :: "error + tensor list \<Rightarrow> ref list heap_op" where
  "new_tensors r h =
     (case r of Inl e \<Rightarrow> (Inl e, h)
      | Inr ts \<Rightarrow> (Inr [length h..<length h + length ts], h @ ts))"

definition heap_linear :: "linear_obj \<Rightarrow> pyref \<Rightarrow> ref heap_op" where
  "heap_linear l v h =
     (case v of TensorRef x \<Rightarrow> new_tensor (linear_forward (linear_of h l) (h ! x)) h
      | ObjectRef \<Rightarrow> (Inl TypeError, h))"

definition heap_add :: "ref \<Rightarrow> ref \<Rightarrow> ref heap_op" where
  "heap_add a b h = new_tensor (tensor_add (h ! a) (h ! b)) h"

definition heap_mul :: "ref \<Rightarrow> ref \<Rightarrow> ref heap_op" where
  "heap_mul a b h = new_tensor (tensor_mul (h ! a) (h ! b)) h"

definition heap_sigmoid :: "ref \<Rightarrow> ref heap_op" where
  "heap_sigmoid a h = new_tensor (Inr (tensor_sigmoid (h ! a))) h"

definition heap_tanh :: "ref \<Rightarrow> ref heap_op" where
  "heap_tanh a h = new_tensor (Inr (tensor_tanh (h ! a))) h"

definition heap_chunk :: "ref \<Rightarrow> nat \<Rightarrow> nat \<Rightarrow> ref list heap_op" where
  "heap_chunk a chunks ax h = new_tensors (chunk (h ! a) chunks ax) h"

definition heap_load_name :: "heap_globals \<Rightarrow> string \<Rightarrow> pyref heap_op" where
  "heap_load_name g name =
     pure_op (case g name of None \<Rightarrow> Inl (NameError name) | Some v \<Rightarrow> Inr v)"

text \<open>Lines 179 to 190, and the whole of \<^verbatim>\<open>forward\<close>, on references.\<close>

definition forward_gates_heap :: "ref \<Rightarrow> ref \<Rightarrow> (ref \<times> ref \<times> ref) heap_op" where
  "forward_gates_heap weights previous_cell_state =
     bind_heap (heap_chunk weights 4 1) (\<lambda>gates.
     bind_heap (pure_op (tuple_get gates 0)) (\<lambda>g0.
     bind_heap (heap_sigmoid g0) (\<lambda>input_gate.
     bind_heap (pure_op (tuple_get gates 1)) (\<lambda>g1.
     bind_heap (heap_sigmoid g1) (\<lambda>forget_gate.
     bind_heap (pure_op (tuple_get gates 2)) (\<lambda>g2.
     bind_heap (heap_sigmoid g2) (\<lambda>output_gate.
     bind_heap (pure_op (tuple_get gates 3)) (\<lambda>g3.
     bind_heap (heap_tanh g3) (\<lambda>cell_gate.
     bind_heap (heap_mul forget_gate previous_cell_state) (\<lambda>kept.
     bind_heap (heap_mul input_gate cell_gate) (\<lambda>written.
     bind_heap (heap_add kept written) (\<lambda>new_cell.
     bind_heap (heap_tanh new_cell) (\<lambda>squashed.
     bind_heap (heap_mul output_gate squashed) (\<lambda>new_hidden.
     pure_op (Inr (new_hidden, (new_hidden, new_cell)))))))))))))))))"

definition LSTMCell_forward_heap ::
  "heap_globals \<Rightarrow> LSTMCell_obj \<Rightarrow> ref \<Rightarrow> ref \<times> ref \<Rightarrow> (ref \<times> ref \<times> ref) heap_op" where
  "LSTMCell_forward_heap g self current_input previous_state =
     (case previous_state of (previous_hidden_state, previous_cell_state) \<Rightarrow>
        bind_heap (heap_linear (input_layer_obj self) (TensorRef current_input)) (\<lambda>from_input.
        bind_heap (heap_load_name g ''previous_hidden'') (\<lambda>previous_hidden.
        bind_heap (heap_linear (hidden_layer_obj self) previous_hidden) (\<lambda>from_hidden.
        bind_heap (heap_add from_input from_hidden) (\<lambda>weights.
        forward_gates_heap weights previous_cell_state)))))"

text \<open>The tensors that a returned triple of references points to.\<close>

definition deref :: "heap \<Rightarrow> ref \<times> ref \<times> ref \<Rightarrow> tensor \<times> state" where
  "deref h r = (case r of (out, (hid, mem)) \<Rightarrow> (h ! out, (h ! hid, h ! mem)))"

text \<open>A computation only allocates when the heap it leaves is the heap it was given,
  followed by new objects.\<close>

definition allocates :: "'a heap_op \<Rightarrow> bool" where
  "allocates m = (\<forall>h. prefix h (snd (m h)))"

text \<open>The references a call is given point into the heap.\<close>

definition valid_refs :: "heap \<Rightarrow> heap_globals \<Rightarrow> LSTMCell_obj \<Rightarrow> ref \<Rightarrow> ref \<times> ref \<Rightarrow> bool" where
  "valid_refs h g self x st =
     (x < length h \<and> fst st < length h \<and> snd st < length h \<and>
      weight_ref (input_layer_obj self) < length h \<and> bias_ref (input_layer_obj self) < length h \<and>
      weight_ref (hidden_layer_obj self) < length h \<and> bias_ref (hidden_layer_obj self) < length h \<and>
      (case g ''previous_hidden'' of Some (TensorRef p) \<Rightarrow> p < length h | _ \<Rightarrow> True))"

section \<open>Example values\<close>

text \<open>\<^verbatim>\<open>torch.zeros(shape)\<close>, a linear layer and a cell whose parameters are all zero, and
  global names that bind \<^verbatim>\<open>previous_hidden\<close> to a tensor besides the notebook's own.\<close>

definition zeros :: "nat list \<Rightarrow> tensor" where
  "zeros s = Tensor s (replicate (prod_list s) 0)"

definition zero_linear :: "nat \<Rightarrow> nat \<Rightarrow> linear" where
  "zero_linear n m =
     \<lparr>in_features = n, out_features = m, weight = replicate m (replicate n 0),
      bias = replicate m 0\<rparr>"

definition zero_cell :: "nat \<Rightarrow> nat \<Rightarrow> LSTMCell" where
  "zero_cell input_dim hidden_dim =
     \<lparr>input_layer = zero_linear input_dim (4 * hidden_dim),
      hidden_layer = zero_linear hidden_dim (4 * hidden_dim)\<rparr>"

definition globals_with :: "tensor \<Rightarrow> globals" where
  "globals_with t = notebook_globals(''previous_hidden'' \<mapsto> TensorVal t)"

text \<open>A heap holding the parameters of \<open>zero_cell 1 1\<close> (objects 0 to 3), an input
  (object 4) and a state (objects 5 and 6), the cell made of these parameters, and
  global names that bind \<^verbatim>\<open>previous_hidden\<close> to object 5.\<close>

definition example_heap :: heap where
  "example_heap =
     [zeros [4, 1], zeros [4], zeros [4, 1], zeros [4],
      Tensor [1, 1] [0], Tensor [1, 1] [0], Tensor [1, 1] [0]]"

definition example_cell_obj :: LSTMCell_obj where
  "example_cell_obj =
     \<lparr>input_layer_obj = \<lparr>weight_ref = 0, bias_ref = 1\<rparr>,
      hidden_layer_obj = \<lparr>weight_ref = 2, bias_ref = 3\<rparr>\<rparr>"

definition example_heap_globals :: heap_globals where
  "example_heap_globals = [''previous_hidden'' \<mapsto> TensorRef 5]"

section \<open>The unbound name of line 177\<close>

lemma notebook_globals_previous_hidden: "notebook_globals ''previous_hidden'' = None"
  by (simp add: notebook_globals_def)

lemma linear_forward_shape_ok:
  "shape x = lead @ [in_features l] \<Longrightarrow> \<exists>y. linear_forward l x = Inr y"
  by (simp add: linear_forward_def)

text \<open>Whatever it is given, \<^verbatim>\<open>forward\<close> raises when \<^verbatim>\<open>previous_hidden\<close> is not a global
  name: either the input layer refuses the input, or line 177 fails on the name.\<close>

lemma forward_notebook_fails: "\<exists>e. LSTMCell_forward notebook_globals self x st = Inl e"
  by (cases st; cases "linear_forward (input_layer self) x")
     (simp_all add: LSTMCell_forward_def bind_err_def load_name_def
        notebook_globals_previous_hidden)

lemma forward_notebook_NameError:
  assumes "shape x = lead @ [in_features (input_layer self)]"
  shows "LSTMCell_forward notebook_globals self x st = Inl (NameError ''previous_hidden'')"
proof -
  obtain y where "linear_forward (input_layer self) x = Inr y"
    using linear_forward_shape_ok[OF assms] by blast
  then show ?thesis
    by (cases st)
       (simp add: LSTMCell_forward_def bind_err_def load_name_def
          notebook_globals_previous_hidden)
qed

text \<open>
  Claim C1. For a cell built with \<open>input_dim = D\<close> and \<open>hidden_dim = H\<close>, an input of
  shape \<open>[B, D]\<close> and a state of two tensors of shape \<open>[B, H]\<close>, the claim says that
  \<^verbatim>\<open>forward\<close> adds the projection of the input to the projection of the state's hidden
  component and returns. In the notebook the call does not return: it raises
  \<^verbatim>\<open>NameError\<close> for the name \<^verbatim>\<open>previous_hidden\<close>, on every such input.
\<close>

theorem C1_forward_raises_NameError:
  assumes "wf_cell D H self"
      and "wf_tensor x" and "shape x = [B, D]"
      and "wf_tensor h" and "shape h = [B, H]"
      and "wf_tensor c" and "shape c = [B, H]"
  shows "LSTMCell_forward notebook_globals self x (h, c) = Inl (NameError ''previous_hidden'')"
proof -
  have "in_features (input_layer self) = D"
    using assms(1) by (simp add: wf_cell_def wf_linear_def)
  then have "shape x = [B] @ [in_features (input_layer self)]"
    using assms(3) by simp
  then show ?thesis
    by (rule forward_notebook_NameError)
qed

lemma wf_zero_cell: "wf_cell D H (zero_cell D H)"
  by (simp add: wf_cell_def wf_linear_def zero_cell_def zero_linear_def list_all_iff)

lemma wf_zeros: "wf_tensor (zeros s)"
  by (simp add: wf_tensor_def zeros_def)

lemma shape_zeros: "shape (zeros s) = s"
  by (simp add: zeros_def)

theorem C1_forward_raises_NameError_witness:
  "wf_cell 1 1 (zero_cell 1 1) \<and> wf_tensor (zeros [1, 1]) \<and> shape (zeros [1, 1]) = [1, 1] \<and>
   LSTMCell_forward notebook_globals (zero_cell 1 1) (zeros [1, 1]) (zeros [1, 1], zeros [1, 1])
     = Inl (NameError ''previous_hidden'')"
proof -
  have cell: "wf_cell 1 1 (zero_cell 1 1)"
    by (rule wf_zero_cell)
  have wf: "wf_tensor (zeros [1, 1])"
    by (rule wf_zeros)
  have sh: "shape (zeros [1, 1]) = [1, 1]"
    by (rule shape_zeros)
  show ?thesis
    using cell wf sh C1_forward_raises_NameError[OF cell wf sh wf sh wf sh] by simp
qed

section \<open>Blocks of a flat list\<close>

lemma length_blocks [simp]: "length (blocks k n xs) = k"
  by (simp add: blocks_def)

lemma nth_blocks: "i < k \<Longrightarrow> blocks k n xs ! i = take n (drop (i * n) xs)"
  by (simp add: blocks_def)

lemma blocks_Suc: "blocks (Suc k) n xs = blocks k n xs @ [take n (drop (k * n) xs)]"
  by (simp add: blocks_def)

lemma length_block_full:
  assumes "k * n \<le> length xs" and "i < k"
  shows "length (take n (drop (i * n) xs)) = n"
proof -
  have "Suc i * n \<le> k * n" using assms(2) by (intro mult_le_mono1) simp
  then have "i * n + n \<le> length xs" using assms(1) by simp
  then show ?thesis by simp
qed

lemma blocks_all_full:
  "k * n \<le> length xs \<Longrightarrow> list_all (\<lambda>b. length b = n) (blocks k n xs)"
  by (simp add: list_all_length nth_blocks length_block_full del: length_take)

lemma concat_blocks_take: "concat (blocks k n xs) = take (k * n) xs"
proof (induction k)
  case 0
  then show ?case by (simp add: blocks_def)
next
  case (Suc k)
  have "take (k * n) xs @ take n (drop (k * n) xs) = take (k * n + n) xs"
    by (simp add: take_add)
  then show ?case using Suc by (simp add: blocks_Suc add.commute)
qed

lemma concat_blocks: "length xs = k * n \<Longrightarrow> concat (blocks k n xs) = xs"
  by (simp add: concat_blocks_take)

lemma drop_concat_uniform:
  "list_all (\<lambda>b. length b = n) bs \<Longrightarrow> drop (i * n) (concat bs) = concat (drop i bs)"
proof (induction bs arbitrary: i)
  case Nil
  then show ?case by simp
next
  case (Cons b bs)
  then show ?case by (cases i) simp_all
qed

lemma blocks_concat_uniform:
  assumes "list_all (\<lambda>b. length b = n) bs"
  shows "blocks (length bs) n (concat bs) = bs"
proof (rule nth_equalityI)
  show "length (blocks (length bs) n (concat bs)) = length bs" by simp
next
  fix i assume "i < length (blocks (length bs) n (concat bs))"
  then have i: "i < length bs" by simp
  then have len: "length (bs ! i) = n"
    using assms by (simp add: list_all_length)
  have "drop i bs = bs ! i # drop (Suc i) bs"
    using i by (simp add: Cons_nth_drop_Suc)
  then have "take n (concat (drop i bs)) = bs ! i"
    using len by simp
  then show "blocks (length bs) n (concat bs) ! i = bs ! i"
    using i by (simp add: nth_blocks drop_concat_uniform[OF assms])
qed

lemma nth_concat_uniform:
  assumes "list_all (\<lambda>x. length x = n) xs" and "b < length xs" and "j < n"
  shows "concat xs ! (b * n + j) = xs ! b ! j"
  using assms
proof (induction xs arbitrary: b)
  case Nil
  then show ?case by simp
next
  case (Cons x xs)
  then show ?case by (cases b) (simp_all add: nth_append)
qed

lemma length_concat_uniform:
  "list_all (\<lambda>x. length x = n) xs \<Longrightarrow> length (concat xs) = length xs * n"
  by (induction xs) simp_all

lemma take_drop_take:
  assumes "i < k"
  shows "take r (drop (i * r) (take (k * r) xs)) = take r (drop (i * r) xs)"
proof -
  have "Suc i * r \<le> k * r" using assms by (intro mult_le_mono1) simp
  then have "min r (k * r - i * r) = r" by simp
  then show ?thesis by (simp add: drop_take)
qed

lemma index2_less:
  assumes "b < B" and "j < H"
  shows "b * H + j < B * (H::nat)"
proof -
  have "Suc b * H \<le> B * H" using assms(1) by (intro mult_le_mono1) simp
  then show ?thesis using assms(2) by simp
qed

section \<open>Elementwise operations on tensors of one shape\<close>

lemma broadcast_rev_same: "broadcast_rev xs xs = Some xs"
  by (induction xs) simp_all

lemma broadcast_shapes_same: "broadcast_shapes s s = Some s"
  by (simp add: broadcast_shapes_def broadcast_rev_same)

lemma expand_same: "length xs = prod_list s \<Longrightarrow> expand s s xs = xs"
proof (induction s arbitrary: xs)
  case Nil
  then show ?case by simp
next
  case (Cons d ds)
  have "map (expand ds ds) (blocks d (prod_list ds) xs) = blocks d (prod_list ds) xs"
  proof (rule map_idI)
    fix b assume "b \<in> set (blocks d (prod_list ds) xs)"
    moreover have "list_all (\<lambda>b. length b = prod_list ds) (blocks d (prod_list ds) xs)"
      using Cons.prems by (intro blocks_all_full) simp
    ultimately have "length b = prod_list ds" by (simp add: list_all_iff)
    then show "expand ds ds b = b" by (rule Cons.IH)
  qed
  then show ?case using Cons.prems by (simp add: concat_blocks)
qed

lemma tensor_binop_same_shape:
  assumes "wf_tensor a" and "wf_tensor b" and "shape a = shape b"
  shows "tensor_binop f a b = Inr (Tensor (shape a) (map2 f (elems a) (elems b)))"
  using assms
  by (simp add: tensor_binop_def broadcast_shapes_same expand_to_def expand_same wf_tensor_def)

lemma tensor_binop_2d:
  assumes "wf_tensor x" and "shape x = [B, H]" and "wf_tensor y" and "shape y = [B, H]"
  obtains r where "tensor_binop f x y = Inr r" and "wf_tensor r" and "shape r = [B, H]"
    and "\<And>b j. b < B \<Longrightarrow> j < H \<Longrightarrow> at2 r b j = f (at2 x b j) (at2 y b j)"
proof
  let ?r = "Tensor (shape x) (map2 f (elems x) (elems y))"
  show "tensor_binop f x y = Inr ?r"
    using assms by (intro tensor_binop_same_shape) simp_all
  show "wf_tensor ?r" using assms by (simp add: wf_tensor_def)
  show "shape ?r = [B, H]" using assms by simp
  fix b j assume "b < B" "j < H"
  then have "b * H + j < B * H" by (rule index2_less)
  then show "at2 ?r b j = f (at2 x b j) (at2 y b j)"
    using assms by (simp add: at2_def wf_tensor_def)
qed

lemma tensor_unary_facts:
  "shape (tensor_sigmoid t) = shape t" "shape (tensor_tanh t) = shape t"
  "wf_tensor (tensor_sigmoid t) = wf_tensor t" "wf_tensor (tensor_tanh t) = wf_tensor t"
  by (simp_all add: tensor_sigmoid_def tensor_tanh_def wf_tensor_def)

lemma at2_sigmoid:
  assumes "wf_tensor t" and "shape t = [B, H]" and "b < B" and "j < H"
  shows "at2 (tensor_sigmoid t) b j = sigmoid (at2 t b j)"
  using assms index2_less[OF assms(3,4)]
  by (simp add: at2_def tensor_sigmoid_def wf_tensor_def)

lemma at2_tanh:
  assumes "wf_tensor t" and "shape t = [B, H]" and "b < B" and "j < H"
  shows "at2 (tensor_tanh t) b j = tanh (at2 t b j)"
  using assms index2_less[OF assms(3,4)]
  by (simp add: at2_def tensor_tanh_def wf_tensor_def)

section \<open>The four chunks of the pre-activation\<close>

lemma upt4: "[0..<4::nat] = [0, 1, 2, 3]"
  by (simp add: numeral_eq_Suc)

lemma chunk_count: 
  assumes "0 < H" shows "(4 * H + H - 1) div H = (4::nat)"
proof (rule div_nat_eqI)
  show "H * 4 \<le> 4 * H + H - 1" using assms by simp
  show "4 * H + H - 1 < H * Suc 4" using assms by simp
qed

lemma chunk_size: "(4 * H + 4 - 1) div 4 = (H::nat)"
  by (rule div_nat_eqI) simp_all

lemma chunk4:
  assumes "shape w = [B, 4 * H]"
  shows "chunk w 4 1
           = Inr [narrow 1 0 H w, narrow 1 H H w, narrow 1 (2 * H) H w, narrow 1 (3 * H) H w]"
proof (cases "H = 0")
  case True
  then show ?thesis using assms by (simp add: chunk_def upt4)
next
  case False
  then have pos: "0 < H" by simp
  have m: "min H (4 * H - i * H) = H" if "i < 4" for i
  proof -
    have "i = 0 \<or> i = 1 \<or> i = 2 \<or> i = 3" using that by arith
    then show ?thesis by auto
  qed
  have n: "shape w ! 1 = 4 * H" and rank: "\<not> 1 \<ge> length (shape w)"
    using assms by simp_all
  have nz: "H \<noteq> 0" using pos by simp
  have "chunk w 4 1 = Inr (map (\<lambda>i. narrow 1 (i * H) (min H (4 * H - i * H)) w) [0..<4])"
    unfolding chunk_def Let_def n chunk_size chunk_count[OF pos]
    by (simp only: rank nz if_False)
  also have "map (\<lambda>i. narrow 1 (i * H) (min H (4 * H - i * H)) w) [0..<4]
               = map (\<lambda>i. narrow 1 (i * H) H w) [0..<4]"
    by (rule map_cong) (simp_all add: m)
  finally show ?thesis by (simp add: upt4)
qed

lemma narrow_cols:
  assumes "wf_tensor w" and "shape w = [B, n]" and "s + len \<le> n"
  shows "shape (narrow 1 s len w) = [B, len]"
    and "wf_tensor (narrow 1 s len w)"
    and "b < B \<Longrightarrow> j < len \<Longrightarrow> at2 (narrow 1 s len w) b j = at2 w b (s + j)"
proof -
  let ?bl = "blocks B n (elems w)"
  have e: "elems (narrow 1 s len w) = concat (map (\<lambda>blk. take len (drop s blk)) ?bl)"
    using assms(2) by (simp add: narrow_def Let_def)
  show sh: "shape (narrow 1 s len w) = [B, len]"
    using assms(2) by (simp add: narrow_def Let_def)
  have len: "B * n \<le> length (elems w)"
    using assms(1,2) by (simp add: wf_tensor_def)
  have full: "list_all (\<lambda>x. length x = n) ?bl"
    using len by (rule blocks_all_full)
  then have cut: "list_all (\<lambda>x. length x = len) (map (\<lambda>blk. take len (drop s blk)) ?bl)"
    using assms(3) by (simp add: list_all_length)
  show "wf_tensor (narrow 1 s len w)"
    unfolding wf_tensor_def sh e using length_concat_uniform[OF cut] by simp
  assume b: "b < B" and j: "j < len"
  have "Suc b * n \<le> B * n" using b by (intro mult_le_mono1) simp
  then have in_range: "b * n + (s + j) < length (elems w)"
    using len assms(3) j by simp
  have "at2 (narrow 1 s len w) b j = (map (\<lambda>blk. take len (drop s blk)) ?bl) ! b ! j"
    unfolding at2_def sh e using nth_concat_uniform[OF cut, of b j] b j by simp
  also have "\<dots> = take n (drop (b * n) (elems w)) ! (s + j)"
  proof -
    have "length (take n (drop (b * n) (elems w))) = n"
      using len b by (rule length_block_full)
    then have "s \<le> length (take n (drop (b * n) (elems w)))"
      using assms(3) by simp
    then have "drop s (take n (drop (b * n) (elems w))) ! j
                 = take n (drop (b * n) (elems w)) ! (s + j)"
      by (rule nth_drop)
    then show ?thesis using b j by (simp add: nth_blocks del: nth_drop)
  qed
  also have "\<dots> = at2 w b (s + j)"
    using assms(2,3) j in_range by (simp add: at2_def)
  finally show "at2 (narrow 1 s len w) b j = at2 w b (s + j)" .
qed

lemma tuple_get4:
  "tuple_get [a, b, c, d] 0 = Inr a" "tuple_get [a, b, c, d] 1 = Inr b"
  "tuple_get [a, b, c, d] 2 = Inr c" "tuple_get [a, b, c, d] 3 = Inr d"
  by (simp_all add: tuple_get_def numeral_eq_Suc)

section \<open>Lines 179 to 190: the gates\<close>

lemma forward_gates_2d:
  assumes "wf_tensor weights" and "shape weights = [B, 4 * H]"
      and "wf_tensor c" and "shape c = [B, H]"
  obtains new_hidden new_cell where
      "forward_gates weights c = Inr (new_hidden, (new_hidden, new_cell))"
      "wf_tensor new_hidden" "shape new_hidden = [B, H]"
      "wf_tensor new_cell" "shape new_cell = [B, H]"
      "\<And>b j. b < B \<Longrightarrow> j < H \<Longrightarrow>
         at2 new_cell b j
           = sigmoid (at2 weights b (H + j)) * at2 c b j
             + sigmoid (at2 weights b j) * tanh (at2 weights b (3 * H + j))"
      "\<And>b j. b < B \<Longrightarrow> j < H \<Longrightarrow>
         at2 new_hidden b j = sigmoid (at2 weights b (2 * H + j)) * tanh (at2 new_cell b j)"
proof -
  let ?g0 = "narrow 1 0 H weights" and ?g1 = "narrow 1 H H weights"
  let ?g2 = "narrow 1 (2 * H) H weights" and ?g3 = "narrow 1 (3 * H) H weights"
  note n0 = narrow_cols[OF assms(1,2), of 0 H]
  note n1 = narrow_cols[OF assms(1,2), of H H]
  note n2 = narrow_cols[OF assms(1,2), of "2 * H" H]
  note n3 = narrow_cols[OF assms(1,2), of "3 * H" H]
  have g0: "wf_tensor ?g0" "shape ?g0 = [B, H]" using n0 by simp_all
  have g1: "wf_tensor ?g1" "shape ?g1 = [B, H]" using n1 by simp_all
  have g2: "wf_tensor ?g2" "shape ?g2 = [B, H]" using n2 by simp_all
  have g3: "wf_tensor ?g3" "shape ?g3 = [B, H]" using n3 by simp_all
  obtain kept where kept: "tensor_mul (tensor_sigmoid ?g1) c = Inr kept"
      "wf_tensor kept" "shape kept = [B, H]"
      "\<And>b j. b < B \<Longrightarrow> j < H \<Longrightarrow> at2 kept b j = at2 (tensor_sigmoid ?g1) b j * at2 c b j"
    unfolding tensor_mul_def
    using tensor_binop_2d[of "tensor_sigmoid ?g1" B H c "(*)"] g1 assms(3,4)
    by (auto simp: tensor_unary_facts)
  obtain written where written: "tensor_mul (tensor_sigmoid ?g0) (tensor_tanh ?g3) = Inr written"
      "wf_tensor written" "shape written = [B, H]"
      "\<And>b j. b < B \<Longrightarrow> j < H \<Longrightarrow>
         at2 written b j = at2 (tensor_sigmoid ?g0) b j * at2 (tensor_tanh ?g3) b j"
    unfolding tensor_mul_def
    using tensor_binop_2d[of "tensor_sigmoid ?g0" B H "tensor_tanh ?g3" "(*)"] g0 g3
    by (auto simp: tensor_unary_facts)
  obtain new_cell where new_cell: "tensor_add kept written = Inr new_cell"
      "wf_tensor new_cell" "shape new_cell = [B, H]"
      "\<And>b j. b < B \<Longrightarrow> j < H \<Longrightarrow> at2 new_cell b j = at2 kept b j + at2 written b j"
    unfolding tensor_add_def
    using tensor_binop_2d[of kept B H written "(+)"] kept(2,3) written(2,3)
    by auto
  obtain new_hidden where new_hidden:
      "tensor_mul (tensor_sigmoid ?g2) (tensor_tanh new_cell) = Inr new_hidden"
      "wf_tensor new_hidden" "shape new_hidden = [B, H]"
      "\<And>b j. b < B \<Longrightarrow> j < H \<Longrightarrow>
         at2 new_hidden b j = at2 (tensor_sigmoid ?g2) b j * at2 (tensor_tanh new_cell) b j"
    unfolding tensor_mul_def
    using tensor_binop_2d[of "tensor_sigmoid ?g2" B H "tensor_tanh new_cell" "(*)"] g2 new_cell(2,3)
    by (auto simp: tensor_unary_facts)
  have run: "forward_gates weights c = Inr (new_hidden, (new_hidden, new_cell))"
    unfolding forward_gates_def chunk4[OF assms(2)] bind_err_def
    by (simp add: tuple_get4 kept(1) written(1) new_cell(1) new_hidden(1) del: One_nat_def)
  have cell_vals: "at2 new_cell b j
                = sigmoid (at2 weights b (H + j)) * at2 c b j
                  + sigmoid (at2 weights b j) * tanh (at2 weights b (3 * H + j))"
    if "b < B" "j < H" for b j
    using that
    by (simp add: new_cell(4) kept(4) written(4)
          at2_sigmoid[OF g0] at2_sigmoid[OF g1] at2_tanh[OF g3]
          n0(3) n1(3) n3(3) del: One_nat_def)
  have hidden_vals: "at2 new_hidden b j
                = sigmoid (at2 weights b (2 * H + j)) * tanh (at2 new_cell b j)"
    if "b < B" "j < H" for b j
    using that
    by (simp add: new_hidden(4) at2_sigmoid[OF g2] at2_tanh[OF new_cell(2,3)] n2(3)
          del: One_nat_def)
  show ?thesis
    using that[OF run new_hidden(2,3) new_cell(2,3)] cell_vals hidden_vals by blast
qed

text \<open>
  Claim C9. Of the four chunks of the pre-activation (columns \<open>0 ..< H\<close>, \<open>H ..< 2H\<close>,
  \<open>2H ..< 3H\<close> and \<open>3H ..< 4H\<close> of \<^verbatim>\<open>weights\<close>), lines 179 to 190 use chunk 0 as the input
  gate, chunk 1 as the forget gate, chunk 2 as the output gate, each through the
  sigmoid, and chunk 3 as the candidate, through tanh: the new cell state is
  \<open>sigmoid(chunk 1) * previous cell + sigmoid(chunk 0) * tanh(chunk 3)\<close> and the new hidden
  state is \<open>sigmoid(chunk 2) * tanh(new cell)\<close>, element by element.
\<close>

theorem C9_gate_chunk_order:
  assumes "wf_tensor weights" and "shape weights = [B, 4 * H]"
      and "wf_tensor c" and "shape c = [B, H]"
  shows "\<exists>new_hidden new_cell.
           forward_gates weights c = Inr (new_hidden, (new_hidden, new_cell)) \<and>
           shape new_hidden = [B, H] \<and> shape new_cell = [B, H] \<and>
           (\<forall>b<B. \<forall>j<H.
              at2 new_cell b j
                = sigmoid (at2 weights b (H + j)) * at2 c b j
                  + sigmoid (at2 weights b j) * tanh (at2 weights b (3 * H + j)) \<and>
              at2 new_hidden b j
                = sigmoid (at2 weights b (2 * H + j)) * tanh (at2 new_cell b j))"
  using forward_gates_2d[OF assms] by metis

theorem C9_gate_chunk_order_witness:
  "wf_tensor (Tensor [1, 4] [1, 2, 3, 4]) \<and> shape (Tensor [1, 4] [1, 2, 3, 4]) = [1, 4 * 1] \<and>
   wf_tensor (Tensor [1, 1] [5]) \<and> shape (Tensor [1, 1] [5]) = [1, 1] \<and>
   (\<exists>new_hidden new_cell.
      forward_gates (Tensor [1, 4] [1, 2, 3, 4]) (Tensor [1, 1] [5])
        = Inr (new_hidden, (new_hidden, new_cell)) \<and>
      at2 new_cell 0 0 = sigmoid 2 * 5 + sigmoid 1 * tanh 4 \<and>
      at2 new_hidden 0 0 = sigmoid 3 * tanh (at2 new_cell 0 0))"
proof -
  let ?w = "Tensor [1, 4] [1, 2, 3, 4]" and ?c = "Tensor [1, 1] [5]"
  have w: "wf_tensor ?w" "shape ?w = [1, 4 * 1]" by (simp_all add: wf_tensor_def)
  have c: "wf_tensor ?c" "shape ?c = [1, 1]" by (simp_all add: wf_tensor_def)
  from C9_gate_chunk_order[OF w c] obtain new_hidden new_cell where
    run: "forward_gates ?w ?c = Inr (new_hidden, (new_hidden, new_cell))" and
    vals: "\<forall>b<1. \<forall>j<1.
              at2 new_cell b j
                = sigmoid (at2 ?w b (1 + j)) * at2 ?c b j
                  + sigmoid (at2 ?w b j) * tanh (at2 ?w b (3 * 1 + j)) \<and>
              at2 new_hidden b j
                = sigmoid (at2 ?w b (2 * 1 + j)) * tanh (at2 new_cell b j)"
    by blast
  from vals have
    "at2 new_cell 0 0 = sigmoid (at2 ?w 0 (1 + 0)) * at2 ?c 0 0
                  + sigmoid (at2 ?w 0 0) * tanh (at2 ?w 0 (3 * 1 + 0))"
    "at2 new_hidden 0 0 = sigmoid (at2 ?w 0 (2 * 1 + 0)) * tanh (at2 new_cell 0 0)"
    by simp_all
  then have "at2 new_cell 0 0 = sigmoid 2 * 5 + sigmoid 1 * tanh 4"
    "at2 new_hidden 0 0 = sigmoid 3 * tanh (at2 new_cell 0 0)"
    by (simp_all add: at2_def)
  with run w c show ?thesis by blast
qed

section \<open>The layer's loop\<close>

lemma unbind_steps:
  "shape t = B # T # rest \<Longrightarrow> unbind t 1 = Inr (map (\<lambda>i. select 1 i t) [0..<T])"
  by (simp add: unbind_def)

lemma shape_select_step:
  "shape t = B # T # rest \<Longrightarrow> shape (select 1 i t) = B # rest"
  by (simp add: select_def)

lemma select_narrow:
  assumes "wf_tensor t" and "shape t = B # T # rest" and "k \<le> T" and "i < k"
  shows "select 1 i (narrow 1 0 k t) = select 1 i t"
proof -
  let ?R = "prod_list rest"
  let ?bl = "blocks B (T * ?R) (elems t)"
  have len: "B * (T * ?R) \<le> length (elems t)"
    using assms(1,2) by (simp add: wf_tensor_def)
  have "k * ?R \<le> T * ?R" using assms(3) by (intro mult_le_mono1)
  then have full: "list_all (\<lambda>b. length b = k * ?R) (map (take (k * ?R)) ?bl)"
    using blocks_all_full[OF len] by (simp add: list_all_length)
  have "blocks B (k * ?R) (concat (map (take (k * ?R)) ?bl)) = map (take (k * ?R)) ?bl"
    using blocks_concat_uniform[OF full] by simp
  then show ?thesis
    using assms(2,4) by (simp add: select_def narrow_def Let_def take_drop_take o_def)
qed

lemma unbind_narrow:
  assumes "wf_tensor t" and "shape t = B # T # rest" and "k \<le> T"
  shows "unbind (narrow 1 0 k t) 1 = Inr (map (\<lambda>i. select 1 i t) [0..<k])"
proof -
  have "shape (narrow 1 0 k t) = B # k # rest"
    using assms(2) by (simp add: narrow_def Let_def)
  then show ?thesis
    using select_narrow[OF assms] by (simp add: unbind_def)
qed

lemma LSTMLayer_loop_cong:
  assumes "\<And>i. i < n \<Longrightarrow> xs ! i = ys ! i"
  shows "LSTMLayer_loop cell xs st n = LSTMLayer_loop cell ys st n"
  using assms by (induction n) simp_all

lemma LSTMLayer_loop_Suc_Inr:
  assumes "LSTMLayer_loop cell xs st (Suc n) = Inr (outs, fin)"
  obtains outs' st1 out where "LSTMLayer_loop cell xs st n = Inr (outs', st1)"
    and "cell (xs ! n) st1 = Inr (out, fin)" and "outs = outs' @ [out]"
  using assms by (auto simp: bind_err_def split: sum.splits prod.splits)

lemma LSTMLayer_loop_length:
  "LSTMLayer_loop cell xs st n = Inr (outs, fin) \<Longrightarrow> length outs = n"
proof (induction n arbitrary: outs fin)
  case 0
  then show ?case by simp
next
  case (Suc n)
  then show ?case by (elim LSTMLayer_loop_Suc_Inr) auto
qed

lemma LSTMLayer_loop_outputs_prefix:
  assumes "LSTMLayer_loop cell xs st n = Inr (outs, fin)" and "k \<le> n"
  shows "\<exists>st'. LSTMLayer_loop cell xs st k = Inr (take k outs, st')"
  using assms
proof (induction n arbitrary: outs fin)
  case 0
  then show ?case by simp
next
  case (Suc n)
  from Suc.prems(1) obtain outs' st1 out where
    prev: "LSTMLayer_loop cell xs st n = Inr (outs', st1)" and
    outs: "outs = outs' @ [out]"
    by (elim LSTMLayer_loop_Suc_Inr)
  have len: "length outs' = n"
    using prev by (rule LSTMLayer_loop_length)
  show ?case
  proof (cases "k = Suc n")
    case True
    then show ?thesis using Suc.prems(1) outs len by simp
  next
    case False
    then have "k \<le> n" using Suc.prems(2) by simp
    from Suc.IH[OF prev this] obtain st' where
      "LSTMLayer_loop cell xs st k = Inr (take k outs', st')" by auto
    then show ?thesis using outs len \<open>k \<le> n\<close> by auto
  qed
qed

lemma LSTMLayer_loop_first_fails:
  assumes "cell (xs ! 0) st = Inl e" and "0 < n"
  shows "LSTMLayer_loop cell xs st n = Inl e"
  using assms(2)
proof (induction n)
  case 0
  then show ?case by simp
next
  case (Suc n)
  then show ?case using assms(1) by (cases n) (simp_all add: bind_err_def)
qed

text \<open>
  Claim C6. Prefix consistency of \<^verbatim>\<open>LSTMLayer.forward\<close>, for any cell, any input of \<open>T\<close>
  steps, any initial state and any \<open>k \<le> T\<close>. The run over the whole input stacks what
  the loop holds after \<open>T\<close> passes; the run over the first \<open>k\<close> steps of the input
  (\<open>narrow 1 0 k input\<close>, \<^verbatim>\<open>input[:, :k]\<close>) with the same initial state stacks exactly what the
  run over the whole input holds after \<open>k\<close> passes, so it returns the state that the
  whole run carries after step \<open>k - 1\<close>, and raises where that run had raised by then; and
  the outputs held after \<open>k\<close> passes are the first \<open>k\<close> of the outputs of the whole run.
\<close>

theorem C6_prefix_consistency:
  assumes "wf_tensor input" and "shape input = B # T # rest" and "k \<le> T"
  shows "LSTMLayer_forward cell input state
           = bind_err (LSTMLayer_after cell input state T) (\<lambda>(outputs, st).
             bind_err (stack outputs 1) (\<lambda>stacked. Inr (stacked, st)))
       \<and> LSTMLayer_forward cell (narrow 1 0 k input) state
           = bind_err (LSTMLayer_after cell input state k) (\<lambda>(outputs, st).
             bind_err (stack outputs 1) (\<lambda>stacked. Inr (stacked, st)))
       \<and> (\<forall>outputs final. LSTMLayer_after cell input state T = Inr (outputs, final) \<longrightarrow>
             (\<exists>st. LSTMLayer_after cell input state k = Inr (take k outputs, st)))"
proof (intro conjI allI impI)
  let ?inputs = "map (\<lambda>i. select 1 i input) [0..<T]"
  have full: "unbind input 1 = Inr ?inputs"
    using assms(2) by (rule unbind_steps)
  have pre: "unbind (narrow 1 0 k input) 1 = Inr (map (\<lambda>i. select 1 i input) [0..<k])"
    using assms by (rule unbind_narrow)
  show "LSTMLayer_forward cell input state
           = bind_err (LSTMLayer_after cell input state T) (\<lambda>(outputs, st).
             bind_err (stack outputs 1) (\<lambda>stacked. Inr (stacked, st)))"
    unfolding LSTMLayer_forward_def LSTMLayer_after_def full bind_err_def by simp
  have "LSTMLayer_loop cell (map (\<lambda>i. select 1 i input) [0..<k]) state k
          = LSTMLayer_loop cell ?inputs state k"
    using assms(3) by (intro LSTMLayer_loop_cong) simp
  then show "LSTMLayer_forward cell (narrow 1 0 k input) state
           = bind_err (LSTMLayer_after cell input state k) (\<lambda>(outputs, st).
             bind_err (stack outputs 1) (\<lambda>stacked. Inr (stacked, st)))"
    unfolding LSTMLayer_forward_def LSTMLayer_after_def full pre bind_err_def by simp
  fix outputs final
  assume "LSTMLayer_after cell input state T = Inr (outputs, final)"
  then have "LSTMLayer_loop cell ?inputs state T = Inr (outputs, final)"
    unfolding LSTMLayer_after_def full bind_err_def by simp
  from LSTMLayer_loop_outputs_prefix[OF this assms(3)]
  show "\<exists>st. LSTMLayer_after cell input state k = Inr (take k outputs, st)"
    unfolding LSTMLayer_after_def full bind_err_def by simp
qed


section \<open>A run that returns: zero parameters and a bound global\<close>

lemma sigmoid_0: "sigmoid 0 = 1 / 2"
  by (simp add: sigmoid_def)

lemma zero_linear_step:
  "linear_forward (zero_linear 1 4) (Tensor [1, 1] [0]) = Inr (Tensor [1, 4] [0, 0, 0, 0])"
  by (simp add: linear_forward_def zero_linear_def blocks_def dot_def numeral_eq_Suc)

lemma zero_add_step:
  "tensor_add (Tensor [1, 4] [0, 0, 0, 0]) (Tensor [1, 4] [0, 0, 0, 0])
     = Inr (Tensor [1, 4] [0, 0, 0, 0])"
  by (simp add: tensor_add_def tensor_binop_same_shape wf_tensor_def)

lemma zero_gates_step:
  "forward_gates (Tensor [1, 4] [0, 0, 0, 0]) (Tensor [1, 1] [0])
     = Inr (Tensor [1, 1] [0], (Tensor [1, 1] [0], Tensor [1, 1] [0]))"
proof -
  have sh: "shape (Tensor [1, 4] [0, 0, 0, 0]) = [1, 4 * 1]" by simp
  show ?thesis
    unfolding forward_gates_def chunk4[OF sh] bind_err_def
    by (simp add: tuple_get_def narrow_def blocks_def tensor_sigmoid_def tensor_tanh_def
          sigmoid_0 tensor_mul_def tensor_add_def tensor_binop_same_shape wf_tensor_def)
qed

lemma zero_cell_step:
  "LSTMCell_forward (globals_with (zeros [1, 1])) (zero_cell 1 1) (Tensor [1, 1] [0])
     (Tensor [1, 1] [0], Tensor [1, 1] [0])
     = Inr (Tensor [1, 1] [0], (Tensor [1, 1] [0], Tensor [1, 1] [0]))"
proof -
  have cell: "input_layer (zero_cell 1 1) = zero_linear 1 4"
      "hidden_layer (zero_cell 1 1) = zero_linear 1 4"
    by (simp_all add: zero_cell_def)
  have g: "load_name (globals_with (zeros [1, 1])) ''previous_hidden''
             = Inr (TensorVal (Tensor [1, 1] [0]))"
    by (simp add: load_name_def globals_with_def zeros_def)
  show ?thesis
    by (simp only: LSTMCell_forward_def cell g bind_err_def call_layer_def prod.case sum.case
          pyval.case zero_linear_step zero_add_step zero_gates_step)
qed


lemma zeros_121_steps:
  "unbind (zeros [1, 2, 1]) 1 = Inr [Tensor [1, 1] [0], Tensor [1, 1] [0]]"
  by (simp add: unbind_def zeros_def select_def narrow_def blocks_def numeral_eq_Suc)

lemma stack_one_step:
  "stack [Tensor [1, 1] [0]] 1 = Inr (Tensor [1, 1, 1] [0])"
  by (simp add: stack_def)

theorem C6_prefix_consistency_witness:
  "wf_tensor (zeros [1, 2, 1]) \<and> shape (zeros [1, 2, 1]) = [1, 2, 1] \<and> (1::nat) \<le> 2 \<and>
   LSTMLayer_after (LSTMCell_forward (globals_with (zeros [1, 1])) (zero_cell 1 1))
       (zeros [1, 2, 1]) (Tensor [1, 1] [0], Tensor [1, 1] [0]) 1
     = Inr ([Tensor [1, 1] [0]], (Tensor [1, 1] [0], Tensor [1, 1] [0])) \<and>
   LSTMLayer_forward (LSTMCell_forward (globals_with (zeros [1, 1])) (zero_cell 1 1))
       (narrow 1 0 1 (zeros [1, 2, 1])) (Tensor [1, 1] [0], Tensor [1, 1] [0])
     = Inr (Tensor [1, 1, 1] [0], (Tensor [1, 1] [0], Tensor [1, 1] [0]))"
proof -
  let ?cell = "LSTMCell_forward (globals_with (zeros [1, 1])) (zero_cell 1 1)"
  let ?st = "(Tensor [1, 1] [0], Tensor [1, 1] [0])"
  have wf: "wf_tensor (zeros [1, 2, 1])" by (rule wf_zeros)
  have sh: "shape (zeros [1, 2, 1]) = [1, 2, 1]" by (rule shape_zeros)
  have k: "(1::nat) \<le> 2" by simp
  have after: "LSTMLayer_after ?cell (zeros [1, 2, 1]) ?st 1 = Inr ([Tensor [1, 1] [0]], ?st)"
    unfolding LSTMLayer_after_def zeros_121_steps
    using zero_cell_step by (simp add: bind_err_def)
  have "LSTMLayer_forward ?cell (narrow 1 0 1 (zeros [1, 2, 1])) ?st
          = bind_err (LSTMLayer_after ?cell (zeros [1, 2, 1]) ?st 1) (\<lambda>(outputs, st).
            bind_err (stack outputs 1) (\<lambda>stacked. Inr (stacked, st)))"
    using C6_prefix_consistency[OF wf sh k, of ?cell ?st] by blast
  also have "\<dots> = Inr (Tensor [1, 1, 1] [0], ?st)"
    unfolding after bind_err_def by (simp only: sum.case prod.case stack_one_step)
  finally show ?thesis using wf sh k after by blast
qed

text \<open>
  Claim C10. For an input with zero time steps, \<^verbatim>\<open>LSTMLayer.forward\<close> does not return an
  empty output with the state unchanged: the loop makes no pass, \<^verbatim>\<open>torch.stack\<close> is given
  the empty list and raises, whatever the cell and the initial state are.
\<close>

theorem C10_empty_sequence_raises:
  assumes "shape input = B # 0 # rest"
  shows "LSTMLayer_forward cell input state = Inl EmptyTensorList"
  using assms by (simp add: LSTMLayer_forward_def unbind_def bind_err_def stack_def)

theorem C10_empty_sequence_raises_witness:
  "shape (zeros [1, 0, 1]) = [1, 0, 1] \<and>
   lstm_forward notebook_globals (zero_cell 1 1) (zeros [1, 0, 1]) (zeros [1, 1], zeros [1, 1])
     = Inl EmptyTensorList"
proof -
  have sh: "shape (zeros [1, 0, 1]) = [1, 0, 1]" by (rule shape_zeros)
  show ?thesis
    unfolding lstm_forward_def using sh C10_empty_sequence_raises[OF sh] by simp
qed

text \<open>
  Claim C4. For an input of \<open>T \<ge> 1\<close> steps the claim says that the layer calls the cell
  once per step and returns the \<open>T\<close> outputs with the final state. With the notebook's
  cell the first call of the cell raises \<^verbatim>\<open>NameError\<close>, which ends the loop: the layer
  returns nothing, for every input of shape \<open>[B, T, D]\<close> and every initial state.
\<close>

theorem C4_layer_raises_NameError:
  assumes "wf_cell D H self" and "shape input = [B, T, D]" and "0 < T"
  shows "lstm_forward notebook_globals self input state = Inl (NameError ''previous_hidden'')"
proof -
  let ?inputs = "map (\<lambda>i. select 1 i input) [0..<T]"
  have steps: "unbind input 1 = Inr ?inputs"
    using assms(2) by (rule unbind_steps)
  have "in_features (input_layer self) = D"
    using assms(1) by (simp add: wf_cell_def wf_linear_def)
  moreover have "shape (?inputs ! 0) = [B, D]"
    using assms(3) shape_select_step[OF assms(2), of 0] by simp
  ultimately have "shape (?inputs ! 0) = [B] @ [in_features (input_layer self)]"
    by simp
  then have "LSTMCell_forward notebook_globals self (?inputs ! 0) state
               = Inl (NameError ''previous_hidden'')"
    by (rule forward_notebook_NameError)
  then have "LSTMLayer_loop (LSTMCell_forward notebook_globals self) ?inputs state T
               = Inl (NameError ''previous_hidden'')"
    using assms(3) by (rule LSTMLayer_loop_first_fails)
  then show ?thesis
    unfolding lstm_forward_def LSTMLayer_forward_def steps bind_err_def by simp
qed

theorem C4_layer_raises_NameError_witness:
  "wf_cell 1 1 (zero_cell 1 1) \<and> shape (zeros [1, 2, 1]) = [1, 2, 1] \<and> (0::nat) < 2 \<and>
   lstm_forward notebook_globals (zero_cell 1 1) (zeros [1, 2, 1]) (zeros [1, 1], zeros [1, 1])
     = Inl (NameError ''previous_hidden'')"
proof -
  have cell: "wf_cell 1 1 (zero_cell 1 1)" by (rule wf_zero_cell)
  have sh: "shape (zeros [1, 2, 1]) = [1, 2, 1]" by (rule shape_zeros)
  have T: "(0::nat) < 2" by simp
  show ?thesis
    using cell sh T C4_layer_raises_NameError[OF cell sh T] by simp
qed

text \<open>
  Claim C2. The claim says that every call with valid inputs leaves the new memory state
  \<open>forget * previous memory + input * candidate\<close>. In the notebook no call of \<^verbatim>\<open>forward\<close>
  produces a memory state at all: whatever it is given, it does not return.
\<close>

theorem C2_no_memory_state_returned:
  "LSTMCell_forward notebook_globals self x st \<noteq> Inr (out, (new_hidden, new_cell))"
  using forward_notebook_fails[of self x st] by auto

text \<open>
  Claim C3. The claim says that the call returns \<open>new_hidden\<close> as the emitted value and
  \<open>(new_hidden, new_cell)\<close> as the carried state. On the zero input and zero state with
  \<open>D = 1\<close> and \<open>H = 2\<close> the notebook's \<^verbatim>\<open>forward\<close> raises \<^verbatim>\<open>NameError\<close> instead.
\<close>

theorem C3_forward_emits_nothing:
  "LSTMCell_forward notebook_globals (zero_cell 1 2) (zeros [1, 1]) (zeros [1, 2], zeros [1, 2])
     = Inl (NameError ''previous_hidden'')"
  by (rule forward_notebook_NameError[where lead = "[1]"])
     (simp add: zeros_def zero_cell_def zero_linear_def)

text \<open>
  Claim C5. The claim says that the sigmoid is applied to three chunks and tanh to the
  fourth, so that the gates and the new hidden state are bounded. In the notebook the
  outcome of \<^verbatim>\<open>forward\<close> is decided before any of them is applied: it is the error of the
  input layer, or else the \<^verbatim>\<open>NameError\<close> of line 177.
\<close>

theorem C5_forward_stops_before_gates:
  "LSTMCell_forward notebook_globals self x st
     = bind_err (linear_forward (input_layer self) x)
         (\<lambda>from_input. Inl (NameError ''previous_hidden''))"
  by (cases st)
     (simp add: LSTMCell_forward_def bind_err_def load_name_def notebook_globals_previous_hidden
        split: sum.split)

section \<open>Shape errors of the cell\<close>

lemma rev_shape_last:
  "s \<noteq> [] \<Longrightarrow> rev s = last s # rev (butlast s)"
  by (induction s rule: rev_induct) simp_all

lemma linear_forward_wrong_shape:
  assumes "shape x = [] \<or> last (shape x) \<noteq> in_features l"
  shows "linear_forward l x = Inl DimensionMismatch"
proof (cases "shape x = []")
  case True
  then show ?thesis by (simp add: linear_forward_def)
next
  case False
  then have r: "rev (shape x) = last (shape x) # rev (butlast (shape x))"
    by (rule rev_shape_last)
  have "last (shape x) \<noteq> in_features l" using assms False by simp
  then show ?thesis unfolding linear_forward_def r by simp
qed

lemma linear_forward_right_shape:
  assumes "shape x \<noteq> []" and "last (shape x) = in_features l"
  shows "\<exists>y. linear_forward l x = Inr y \<and> shape y = butlast (shape x) @ [out_features l]"
proof -
  have r: "rev (shape x) = last (shape x) # rev (butlast (shape x))"
    using assms(1) by (rule rev_shape_last)
  show ?thesis unfolding linear_forward_def r using assms(2) by simp
qed

lemma linear_forward_2d:
  assumes "wf_linear n m l" and "wf_tensor x" and "shape x = [B, n]"
  obtains y where "linear_forward l x = Inr y" and "wf_tensor y" and "shape y = [B, m]"
proof
  let ?rows = "map (\<lambda>row. map2 (\<lambda>w b. dot w row + b) (weight l) (bias l)) (blocks B n (elems x))"
  let ?y = "Tensor [B, m] (concat ?rows)"
  have l: "in_features l = n" "out_features l = m" "length (weight l) = m" "length (bias l) = m"
    using assms(1) by (simp_all add: wf_linear_def)
  show "linear_forward l x = Inr ?y"
    using assms(3) l by (simp add: linear_forward_def)
  have "list_all (\<lambda>r. length r = m) ?rows"
    using l by (simp add: list_all_iff)
  then have "length (concat ?rows) = B * m"
    using length_concat_uniform[of m ?rows] by simp
  then show "wf_tensor ?y" by (simp add: wf_tensor_def)
  show "shape ?y = [B, m]" by simp
qed

text \<open>Where \<^verbatim>\<open>previous_hidden\<close> is a global name bound to a tensor of shape \<open>[B, H]\<close>, a
  call with an input of shape \<open>[B, D]\<close> and a memory of shape \<open>[B, H]\<close> returns a hidden
  state and a memory of shape \<open>[B, H]\<close>.\<close>

lemma forward_returns_when_bound:
  assumes "wf_cell D H self"
      and "wf_tensor x" and "shape x = [B, D]"
      and "wf_tensor c" and "shape c = [B, H]"
      and "g ''previous_hidden'' = Some (TensorVal p)" and "wf_tensor p" and "shape p = [B, H]"
  obtains new_hidden new_cell where
      "LSTMCell_forward g self x (h, c) = Inr (new_hidden, (new_hidden, new_cell))"
      "shape new_hidden = [B, H]" "shape new_cell = [B, H]"
proof -
  have cell: "wf_linear D (4 * H) (input_layer self)" "wf_linear H (4 * H) (hidden_layer self)"
    using assms(1) by (simp_all add: wf_cell_def)
  obtain y1 where y1: "linear_forward (input_layer self) x = Inr y1"
      "wf_tensor y1" "shape y1 = [B, 4 * H]"
    by (rule linear_forward_2d[OF cell(1) assms(2,3)])
  obtain y2 where y2: "linear_forward (hidden_layer self) p = Inr y2"
      "wf_tensor y2" "shape y2 = [B, 4 * H]"
    by (rule linear_forward_2d[OF cell(2) assms(7,8)])
  obtain w where w: "tensor_add y1 y2 = Inr w" "wf_tensor w" "shape w = [B, 4 * H]"
    unfolding tensor_add_def
    by (rule tensor_binop_2d[OF y1(2,3) y2(2,3), of "(+)"])
  obtain new_hidden new_cell where
      run: "forward_gates w c = Inr (new_hidden, (new_hidden, new_cell))"
      and sh: "shape new_hidden = [B, H]" "shape new_cell = [B, H]"
    by (rule forward_gates_2d[OF w(2,3) assms(4,5)])
  have "LSTMCell_forward g self x (h, c) = Inr (new_hidden, (new_hidden, new_cell))"
    using y1(1) y2(1) w(1) run assms(6)
    by (simp add: LSTMCell_forward_def bind_err_def load_name_def call_layer_def)
  then show ?thesis using sh that by blast
qed

text \<open>The input layer is called first: an input whose last dimension is not the
  layer's \<open>in_features\<close> (or that has no dimension) raises the dimension error, whatever
  the state and the global names are.\<close>

lemma forward_refuses_wrong_input:
  assumes "shape x = [] \<or> last (shape x) \<noteq> in_features (input_layer self)"
  shows "LSTMCell_forward g self x st = Inl DimensionMismatch"
proof -
  have "linear_forward (input_layer self) x = Inl DimensionMismatch"
    using assms by (rule linear_forward_wrong_shape)
  then show ?thesis
    by (cases st) (simp add: LSTMCell_forward_def bind_err_def)
qed

text \<open>
  Claim C7. The claim says that \<^verbatim>\<open>forward\<close> fails with a dimension error whenever the
  input is not of length \<open>D\<close> or an element of the state is not of length \<open>H\<close>. For the
  input it does (lemma \<open>forward_refuses_wrong_input\<close>). For the state it does not: line 177
  means to send the hidden state through the hidden layer, which would check its
  length, but reads the unbound name \<^verbatim>\<open>previous_hidden\<close> instead. With an input of shape
  \<open>[B, D]\<close> and a state element of any other shape than \<open>[B, H]\<close>, the notebook's
  \<^verbatim>\<open>forward\<close> raises \<^verbatim>\<open>NameError\<close>, not a dimension error.
\<close>

theorem C7_wrong_state_raises_NameError:
  assumes "wf_cell D H self" and "shape x = [B, D]"
      and "shape h \<noteq> [B, H] \<or> shape c \<noteq> [B, H]"
  shows "LSTMCell_forward notebook_globals self x (h, c) = Inl (NameError ''previous_hidden'')
       \<and> LSTMCell_forward notebook_globals self x (h, c) \<noteq> Inl DimensionMismatch"
proof -
  have "in_features (input_layer self) = D"
    using assms(1) by (simp add: wf_cell_def wf_linear_def)
  then have "shape x = [B] @ [in_features (input_layer self)]"
    using assms(2) by simp
  then have "LSTMCell_forward notebook_globals self x (h, c)
               = Inl (NameError ''previous_hidden'')"
    by (rule forward_notebook_NameError)
  then show ?thesis by simp
qed

theorem C7_wrong_state_raises_NameError_witness:
  "wf_cell 1 1 (zero_cell 1 1) \<and> shape (zeros [1, 1]) = [1, 1] \<and>
   shape (zeros [1, 2]) \<noteq> [1, 1] \<and>
   LSTMCell_forward notebook_globals (zero_cell 1 1) (zeros [1, 1]) (zeros [1, 2], zeros [1, 1])
     = Inl (NameError ''previous_hidden'') \<and>
   LSTMCell_forward notebook_globals (zero_cell 1 1) (zeros [1, 1]) (zeros [1, 2], zeros [1, 1])
     \<noteq> Inl DimensionMismatch"
proof -
  have cell: "wf_cell 1 1 (zero_cell 1 1)" by (rule wf_zero_cell)
  have sh: "shape (zeros [1, 1]) = [1, 1]" by (rule shape_zeros)
  have bad: "shape (zeros [1, 2]) \<noteq> [1, 1]" by (simp add: zeros_def)
  then have state: "shape (zeros [1, 2]) \<noteq> [1, 1] \<or> shape (zeros [1, 1]) \<noteq> [1, 1]"
    by (rule disjI1)
  show ?thesis
    using cell sh bad C7_wrong_state_raises_NameError[OF cell sh state] by simp
qed

section \<open>The cell on a heap of tensor objects\<close>

lemma allocates_bind:
  assumes "allocates m" and "\<And>x. allocates (f x)"
  shows "allocates (bind_heap m f)"
  unfolding allocates_def
proof
  fix h
  show "prefix h (snd (bind_heap m f h))"
  proof (cases "m h")
    case (Pair r h')
    have 1: "prefix h h'" using assms(1) Pair by (auto simp: allocates_def dest: spec[of _ h])
    show ?thesis
    proof (cases r)
      case (Inl e)
      then show ?thesis using Pair 1 by (simp add: bind_heap_def)
    next
      case (Inr x)
      have "prefix h' (snd (f x h'))" using assms(2)[of x] by (simp add: allocates_def)
      then show ?thesis using Pair Inr 1 by (auto simp: bind_heap_def intro: prefix_order.trans)
    qed
  qed
qed

lemma allocates_basic:
  "allocates (pure_op r)" "allocates (new_tensor rt)" "allocates (new_tensors rts)"
  by (auto simp: allocates_def pure_op_def new_tensor_def new_tensors_def split: sum.splits)

lemma allocates_ops:
  "allocates (heap_linear l v)" "allocates (heap_add a b)" "allocates (heap_mul a b)"
  "allocates (heap_sigmoid a)" "allocates (heap_tanh a)" "allocates (heap_chunk a n ax)"
  "allocates (heap_load_name g name)"
  by (auto simp: allocates_def heap_linear_def heap_add_def heap_mul_def heap_sigmoid_def
      heap_tanh_def heap_chunk_def heap_load_name_def pure_op_def new_tensor_def new_tensors_def
      split: sum.splits pyref.splits)

lemma allocates_gates: "allocates (forward_gates_heap w c)"
  unfolding forward_gates_heap_def
  by (simp add: allocates_bind allocates_ops allocates_basic)

lemma allocates_forward: "allocates (LSTMCell_forward_heap g self x st)"
  unfolding LSTMCell_forward_heap_def
  by (cases st) (simp add: allocates_bind allocates_ops allocates_basic allocates_gates)

lemma bind_pure_op:
  "bind_heap (pure_op r) f h = (case r of Inl e \<Rightarrow> (Inl e, h) | Inr x \<Rightarrow> f x h)"
  by (simp add: bind_heap_def pure_op_def split: sum.split)

lemma bind_heap_unary:
  "bind_heap (heap_sigmoid a) f h = f (length h) (h @ [tensor_sigmoid (h ! a)])"
  "bind_heap (heap_tanh a) f h = f (length h) (h @ [tensor_tanh (h ! a)])"
  by (simp_all add: bind_heap_def heap_sigmoid_def heap_tanh_def new_tensor_def)

lemma bind_heap_binary:
  "bind_heap (heap_mul a b) f h
     = (case tensor_mul (h ! a) (h ! b) of Inl e \<Rightarrow> (Inl e, h) | Inr t \<Rightarrow> f (length h) (h @ [t]))"
  "bind_heap (heap_add a b) f h
     = (case tensor_add (h ! a) (h ! b) of Inl e \<Rightarrow> (Inl e, h) | Inr t \<Rightarrow> f (length h) (h @ [t]))"
  by (simp_all add: bind_heap_def heap_mul_def heap_add_def new_tensor_def split: sum.split)

lemma bind_heap_chunk:
  "bind_heap (heap_chunk a n ax) f h
     = (case chunk (h ! a) n ax of Inl e \<Rightarrow> (Inl e, h)
        | Inr ts \<Rightarrow> f [length h..<length h + length ts] (h @ ts))"
  by (simp add: bind_heap_def heap_chunk_def new_tensors_def split: sum.split)

lemma bind_heap_linear:
  "bind_heap (heap_linear l (TensorRef x)) f h
     = (case linear_forward (linear_of h l) (h ! x) of Inl e \<Rightarrow> (Inl e, h)
        | Inr t \<Rightarrow> f (length h) (h @ [t]))"
  "bind_heap (heap_linear l ObjectRef) f h = (Inl TypeError, h)"
  by (simp_all add: bind_heap_def heap_linear_def new_tensor_def split: sum.split)

lemma tuple_get_upt:
  "tuple_get [a..<a + n] i = (if i < n then Inr (a + i) else Inl TupleIndexError)"
  by (simp add: tuple_get_def)

lemma gates_refinement:
  assumes "w < length h" and "c < length h"
  shows "(case forward_gates_heap w c h of (r, h') \<Rightarrow> map_sum id (deref h') r)
           = forward_gates (h ! w) (h ! c)"
  using assms
  by (simp add: forward_gates_heap_def forward_gates_def bind_heap_chunk bind_pure_op
       bind_heap_unary bind_heap_binary tuple_get_upt
       bind_err_def tuple_get_def deref_def pure_op_def nth_append Let_def split: sum.split)

lemma linear_of_append:
  "weight_ref l < length h \<Longrightarrow> bias_ref l < length h \<Longrightarrow> linear_of (h @ ys) l = linear_of h l"
  by (simp add: linear_of_def nth_append)

lemma forward_refinement:
  assumes "valid_refs h g self x (hr, cr)"
  shows "(case LSTMCell_forward_heap g self x (hr, cr) h of (r, h') \<Rightarrow> map_sum id (deref h') r)
           = LSTMCell_forward (globals_of h g) (cell_of h self) (h ! x) (h ! hr, h ! cr)"
proof (cases "linear_forward (linear_of h (input_layer_obj self)) (h ! x)")
  case (Inl e)
  then show ?thesis
    by (simp add: LSTMCell_forward_heap_def LSTMCell_forward_def bind_heap_linear bind_err_def
          cell_of_def)
next
  case t1: (Inr t1)
  show ?thesis
  proof (cases "g ''previous_hidden''")
    case None
    then show ?thesis
      using t1
      by (simp add: LSTMCell_forward_heap_def LSTMCell_forward_def bind_heap_linear bind_err_def
            cell_of_def heap_load_name_def bind_pure_op load_name_def globals_of_def)
  next
    case (Some v)
    show ?thesis
    proof (cases v)
      case ObjectRef
      then show ?thesis
        using t1 Some
        by (simp add: LSTMCell_forward_heap_def LSTMCell_forward_def bind_heap_linear
              bind_err_def cell_of_def heap_load_name_def bind_pure_op load_name_def
              globals_of_def pyval_of_def call_layer_def)
    next
      case (TensorRef p)
      have p: "p < length h" and c: "cr < length h"
        and l: "weight_ref (hidden_layer_obj self) < length h"
               "bias_ref (hidden_layer_obj self) < length h"
        using assms Some TensorRef by (simp_all add: valid_refs_def)
      show ?thesis
      proof (cases "linear_forward (linear_of h (hidden_layer_obj self)) (h ! p)")
        case (Inl e)
        then show ?thesis
          using t1 Some TensorRef p l
          by (simp add: LSTMCell_forward_heap_def LSTMCell_forward_def bind_heap_linear
                bind_err_def cell_of_def heap_load_name_def bind_pure_op load_name_def
                globals_of_def pyval_of_def call_layer_def linear_of_append nth_append)
      next
        case t2: (Inr t2)
        show ?thesis
        proof (cases "tensor_add t1 t2")
          case (Inl e)
          then show ?thesis
            using t1 t2 Some TensorRef p l
            by (simp add: LSTMCell_forward_heap_def LSTMCell_forward_def bind_heap_linear
                  bind_err_def cell_of_def heap_load_name_def bind_pure_op load_name_def
                  globals_of_def pyval_of_def call_layer_def linear_of_append nth_append
                  bind_heap_binary)
        next
          case t3: (Inr t3)
          let ?h3 = "h @ [t1] @ [t2] @ [t3]"
          have "(case forward_gates_heap (Suc (Suc (length h))) cr ?h3 of
                   (r, h') \<Rightarrow> map_sum id (deref h') r)
                  = forward_gates (?h3 ! Suc (Suc (length h))) (?h3 ! cr)"
            using c by (intro gates_refinement) simp_all
          then show ?thesis
            using t1 t2 t3 Some TensorRef p l c
            by (simp add: LSTMCell_forward_heap_def LSTMCell_forward_def bind_heap_linear
                  bind_err_def cell_of_def heap_load_name_def bind_pure_op load_name_def
                  globals_of_def pyval_of_def call_layer_def linear_of_append nth_append
                  bind_heap_binary)
        qed
      qed
    qed
  qed
qed

lemma LSTMCell_forward_globals_cong:
  "g1 ''previous_hidden'' = g2 ''previous_hidden'' \<Longrightarrow>
   LSTMCell_forward g1 self x st = LSTMCell_forward g2 self x st"
  by (simp add: LSTMCell_forward_def load_name_def)

lemma valid_refs_prefix:
  assumes "valid_refs h g self x st" and "prefix h h1"
  shows "valid_refs h1 g self x st"
proof -
  have "length h \<le> length h1" using assms(2) by (rule prefix_length_le)
  then show ?thesis
    using assms(1) by (auto simp: valid_refs_def split: option.splits pyref.splits)
qed

lemma prefix_nth: "prefix h h1 \<Longrightarrow> r < length h \<Longrightarrow> h1 ! r = h ! r"
  by (auto simp: prefix_def nth_append)

lemma cell_of_prefix:
  assumes "valid_refs h g self x st" and "prefix h h1"
  shows "cell_of h1 self = cell_of h self"
proof -
  obtain ys where "h1 = h @ ys" using assms(2) by (auto simp: prefix_def)
  then show ?thesis
    using assms(1) by (simp add: cell_of_def valid_refs_def linear_of_append)
qed

lemma globals_of_prefix:
  assumes "valid_refs h g self x st" and "prefix h h1"
  shows "globals_of h1 g ''previous_hidden'' = globals_of h g ''previous_hidden''"
  using assms
  by (auto simp: globals_of_def pyval_of_def valid_refs_def prefix_nth
       split: option.splits pyref.splits)

text \<open>
  Claim C8. A call of \<^verbatim>\<open>forward\<close> only allocates: every object of the heap it is given
  is in the heap it leaves, unchanged, so the input, both elements of the state and the
  weights and biases of the cell are what they were, whether the call returns or raises.
  A second call with the same references, made on the heap the first call left, has the
  same outcome: the same exception, or tensors with the same shapes and elements.
\<close>

theorem C8_forward_only_allocates:
  assumes "valid_refs h g self x st"
      and "LSTMCell_forward_heap g self x st h = (r1, h1)"
      and "LSTMCell_forward_heap g self x st h1 = (r2, h2)"
  shows "prefix h h1 \<and>
         h1 ! x = h ! x \<and> h1 ! fst st = h ! fst st \<and> h1 ! snd st = h ! snd st \<and>
         cell_of h1 self = cell_of h self \<and>
         map_sum id (deref h2) r2 = map_sum id (deref h1) r1"
proof -
  obtain hr cr where st: "st = (hr, cr)" by (cases st)
  have pre: "prefix h h1"
    using allocates_forward[of g self x st] assms(2)
    by (auto simp: allocates_def dest: spec[of _ h])
  have valid1: "valid_refs h1 g self x st"
    using assms(1) pre by (rule valid_refs_prefix)
  have refs: "x < length h" "hr < length h" "cr < length h"
    using assms(1) st by (simp_all add: valid_refs_def)
  have same: "h1 ! x = h ! x" "h1 ! hr = h ! hr" "h1 ! cr = h ! cr"
    using pre refs by (simp_all add: prefix_nth)
  have cell: "cell_of h1 self = cell_of h self"
    using assms(1) pre by (rule cell_of_prefix)
  have "map_sum id (deref h2) r2
          = LSTMCell_forward (globals_of h1 g) (cell_of h1 self) (h1 ! x) (h1 ! hr, h1 ! cr)"
    using forward_refinement[of h1 g self x hr cr] valid1 assms(3) st by simp
  also have "\<dots> = LSTMCell_forward (globals_of h g) (cell_of h self) (h ! x) (h ! hr, h ! cr)"
    unfolding cell same
    by (rule LSTMCell_forward_globals_cong) (rule globals_of_prefix[OF assms(1) pre])
  also have "\<dots> = map_sum id (deref h1) r1"
    using forward_refinement[of h g self x hr cr] assms(1,2) st by simp
  finally show ?thesis
    using pre same cell st by simp
qed

lemma example_cell_of: "cell_of example_heap example_cell_obj = zero_cell 1 1"
  by (simp add: cell_of_def linear_of_def example_heap_def example_cell_obj_def zero_cell_def
      zero_linear_def zeros_def blocks_def numeral_eq_Suc)

lemma example_valid_refs: "valid_refs example_heap example_heap_globals example_cell_obj 4 (5, 6)"
  by (simp add: valid_refs_def example_heap_def example_cell_obj_def example_heap_globals_def)

theorem C8_forward_only_allocates_witness:
  "valid_refs example_heap example_heap_globals example_cell_obj 4 (5, 6) \<and>
   (\<exists>r1 h1 r2 h2.
      LSTMCell_forward_heap example_heap_globals example_cell_obj 4 (5, 6) example_heap = (r1, h1) \<and>
      LSTMCell_forward_heap example_heap_globals example_cell_obj 4 (5, 6) h1 = (r2, h2) \<and>
      prefix example_heap h1 \<and>
      map_sum id (deref h2) r2 = map_sum id (deref h1) r1 \<and>
      map_sum id (deref h1) r1
        = Inr (Tensor [1, 1] [0], (Tensor [1, 1] [0], Tensor [1, 1] [0])))"
proof -
  let ?run = "LSTMCell_forward_heap example_heap_globals example_cell_obj 4 (5, 6)"
  obtain r1 h1 where 1: "?run example_heap = (r1, h1)" by (cases "?run example_heap")
  obtain r2 h2 where 2: "?run h1 = (r2, h2)" by (cases "?run h1")
  note valid = example_valid_refs
  have frame: "prefix example_heap h1" "map_sum id (deref h2) r2 = map_sum id (deref h1) r1"
    using C8_forward_only_allocates[OF valid 1 2] by simp_all
  have "globals_of example_heap example_heap_globals ''previous_hidden''
          = globals_with (zeros [1, 1]) ''previous_hidden''"
    by (simp add: globals_of_def pyval_of_def example_heap_globals_def example_heap_def
          globals_with_def zeros_def)
  then have "LSTMCell_forward (globals_of example_heap example_heap_globals) (zero_cell 1 1)
               (Tensor [1, 1] [0]) (Tensor [1, 1] [0], Tensor [1, 1] [0])
             = Inr (Tensor [1, 1] [0], (Tensor [1, 1] [0], Tensor [1, 1] [0]))"
    using LSTMCell_forward_globals_cong zero_cell_step by metis
  moreover have "example_heap ! 4 = Tensor [1, 1] [0]" "example_heap ! 5 = Tensor [1, 1] [0]"
      "example_heap ! 6 = Tensor [1, 1] [0]"
    by (simp_all add: example_heap_def)
  ultimately have "map_sum id (deref h1) r1
        = Inr (Tensor [1, 1] [0], (Tensor [1, 1] [0], Tensor [1, 1] [0]))"
    using forward_refinement[OF valid] 1 by (simp add: example_cell_of)
  then show ?thesis using valid 1 2 frame by blast
qed

section \<open>What the lines after 177 would compute\<close>

text \<open>The hidden component of the state is unpacked on line 175 and never read: the
  outcome of \<^verbatim>\<open>forward\<close> does not depend on it, whatever the global names are.\<close>

lemma forward_ignores_hidden_state:
  "LSTMCell_forward g self x (h, c) = LSTMCell_forward g self x (h', c)"
  by (simp add: LSTMCell_forward_def)

lemma sigmoid_bounds: "0 < sigmoid x" "sigmoid x < 1"
proof -
  have e: "0 < exp (- x)" by simp
  then have pos: "0 < 1 + exp (- x)" by (simp add: add_pos_pos)
  then show "0 < sigmoid x" by (simp add: sigmoid_def)
  have "1 < 1 + exp (- x)" using e by simp
  then show "sigmoid x < 1" using pos by (simp add: sigmoid_def)
qed

text \<open>Where lines 179 to 190 run on a pre-activation of shape \<open>[B, 4H]\<close> and a memory of
  shape \<open>[B, H]\<close>, every element of the new hidden state lies strictly between -1 and 1.\<close>

lemma forward_gates_hidden_bounded:
  assumes "wf_tensor weights" and "shape weights = [B, 4 * H]"
      and "wf_tensor c" and "shape c = [B, H]"
      and "forward_gates weights c = Inr (out, (new_hidden, new_cell))"
      and "b < B" and "j < H"
  shows "\<bar>at2 new_hidden b j\<bar> < 1"
proof -
  obtain nh nc where run: "forward_gates weights c = Inr (nh, (nh, nc))"
    and val: "at2 nh b j = sigmoid (at2 weights b (2 * H + j)) * tanh (at2 nc b j)"
    using forward_gates_2d[OF assms(1-4)] assms(6,7) by metis
  have eq: "new_hidden = nh" using run assms(5) by simp
  let ?s = "sigmoid (at2 weights b (2 * H + j))" and ?t = "tanh (at2 nc b j)"
  have "\<bar>?s * ?t\<bar> = ?s * \<bar>?t\<bar>"
    using sigmoid_bounds(1)[of "at2 weights b (2 * H + j)"] by (simp add: abs_mult)
  also have "\<dots> \<le> 1 * \<bar>?t\<bar>"
    using sigmoid_bounds(2)[of "at2 weights b (2 * H + j)"]
    by (intro mult_right_mono) simp_all
  also have "\<dots> < 1"
    using tanh_real_lt_1[of "at2 nc b j"] tanh_real_gt_neg1[of "at2 nc b j"] by simp
  finally show ?thesis using val eq by simp
qed

end
